theory Spec2Isabelle
  imports Main "HOL-Library.Sublist"
begin

section \<open>Python values\<close>

text \<open>
  A Python \<^verbatim>\<open>str\<close> is a sequence of Unicode code points; the two pictographs of
  the status lines lie outside ASCII, so a code point is a natural number. File contents
  are bytes.
\<close>

type_synonym pystr = "nat list"
type_synonym bytes = string

definition ascii :: "string \<Rightarrow> pystr" where
  "ascii cs = map of_char cs"

text \<open>\<^verbatim>\<open>str(n)\<close> for an integer, as an f-string field formats it.\<close>

fun str_nat :: "nat \<Rightarrow> pystr" where
  "str_nat n = (if n < 10 then [48 + n] else str_nat (n div 10) @ [48 + n mod 10])"

declare str_nat.simps [simp del]

definition str_int :: "int \<Rightarrow> pystr" where
  "str_int i = (if i < 0 then 45 # str_nat (nat (- i)) else str_nat (nat i))"

text \<open>\<^verbatim>\<open>s.split(sep)\<close> for a one-character separator, and \<^verbatim>\<open>sep.join(xs)\<close>.\<close>

fun py_split :: "nat \<Rightarrow> pystr \<Rightarrow> pystr list" where
  "py_split sep [] = [[]]"
| "py_split sep (c # cs) =
     (if c = sep then [] # py_split sep cs
      else (c # hd (py_split sep cs)) # tl (py_split sep cs))"

fun py_join :: "pystr \<Rightarrow> pystr list \<Rightarrow> pystr" where
  "py_join sep [] = []"
| "py_join sep [x] = x"
| "py_join sep (x # y # ys) = x @ sep @ py_join sep (y # ys)"

definition endswith :: "pystr \<Rightarrow> pystr \<Rightarrow> bool" where
  "endswith s suf = suffix suf s"

definition startswith :: "pystr \<Rightarrow> pystr \<Rightarrow> bool" where
  "startswith s pre = prefix pre s"

text \<open>The characters \<^verbatim>\<open>str.rstrip()\<close> removes when it is given no argument.\<close>

definition isspace :: "nat \<Rightarrow> bool" where
  "isspace c \<longleftrightarrow>
     (9 \<le> c \<and> c \<le> 13) \<or> (28 \<le> c \<and> c \<le> 32) \<or> c = 133 \<or> c = 160 \<or> c = 5760 \<or>
     (8192 \<le> c \<and> c \<le> 8202) \<or> c = 8232 \<or> c = 8233 \<or> c = 8239 \<or> c = 8287 \<or> c = 12288"

definition rstrip :: "pystr \<Rightarrow> pystr" where
  "rstrip s = rev (dropWhile isspace (rev s))"

section \<open>The operating system as the script sees it\<close>

text \<open>
  A file name is the list of its components below the working directory of the process;
  the empty list is the working directory itself. The script names one directory,
  \<^verbatim>\<open>"dist"\<close>, a single component.
\<close>

type_synonym pathname = "pystr list"
type_synonym address = "pystr \<times> int"

datatype oserror = EEXIST | ENOENT | ENOTDIR | EACCES | EADDRINUSE

datatype exn = OSError oserror | KeyboardInterrupt

datatype node =
    File (content: bytes) (mtime: int) (readable: bool)
  | Dir (listable: bool)

text \<open>
  What \<^verbatim>\<open>parse_request\<close> hands to the \<^verbatim>\<open>do_\<close> methods for a well-formed
  HTTP/1.x request: the method, the request target, and the two headers that
  \<^verbatim>\<open>send_head\<close> reads. \<open>if_modified_since\<close> is the instant (whole seconds, UTC)
  that the header parses to; it is \<open>None\<close> when the header is absent, ill-formed or not
  in UTC. \<open>if_none_match\<close> says whether that header is present.
\<close>

record request =
  command :: pystr
  path :: pystr
  if_modified_since :: "int option"
  if_none_match :: bool

datatype payload =
    NoBody
  | FileContent bytes
  | ErrorPage
  | Listing pathname

record response =
  version :: pystr
  status :: nat
  body :: payload

text \<open>The system calls of the process, in the order it makes them, with their results.\<close>

datatype syscall =
    Mkdir pathname "oserror option"
  | Bind address "oserror option"
  | Listen
  | Write pystr
  | Reply request response
  | Close

text \<open>
  \<open>fs\<close> is the file system below the working directory. \<open>mkdir_denied\<close> and
  \<open>bind_errno\<close> are the answers of the operating system that the script cannot see in
  advance: whether the working directory refuses new entries, and the error, if any,
  with which \<^verbatim>\<open>bind\<close> fails on an address.
\<close>

record world =
  fs :: "pathname \<rightharpoonup> node"
  mkdir_denied :: bool
  bind_errno :: "address \<rightharpoonup> oserror"
  listening :: bool
  trace :: "syscall list"

definition isdir :: "world \<Rightarrow> pathname \<Rightarrow> bool" where
  "isdir w p \<longleftrightarrow> p = [] \<or> (case fs w p of Some (Dir _) \<Rightarrow> True | _ \<Rightarrow> False)"

definition isfile :: "world \<Rightarrow> pathname \<Rightarrow> bool" where
  "isfile w p \<longleftrightarrow> (case fs w p of Some (File _ _ _) \<Rightarrow> True | _ \<Rightarrow> False)"

definition exists :: "world \<Rightarrow> pathname \<Rightarrow> bool" where
  "exists w p \<longleftrightarrow> p = [] \<or> fs w p \<noteq> None"

text \<open>\<^verbatim>\<open>os.mkdir\<close>: one directory, whose parent must be a directory.\<close>

definition mkdir_errno :: "world \<Rightarrow> pathname \<Rightarrow> oserror option" where
  "mkdir_errno w p =
     (if exists w p then Some EEXIST
      else if \<not> exists w (butlast p) then Some ENOENT
      else if \<not> isdir w (butlast p) then Some ENOTDIR
      else if mkdir_denied w then Some EACCES
      else None)"

definition mkdir :: "pathname \<Rightarrow> world \<Rightarrow> (exn + unit) \<times> world" where
  "mkdir p w =
     (case mkdir_errno w p of
        Some e \<Rightarrow> (Inl (OSError e), w\<lparr>trace := trace w @ [Mkdir p (Some e)]\<rparr>)
      | None \<Rightarrow> (Inr (), w\<lparr>fs := (fs w)(p \<mapsto> Dir True), trace := trace w @ [Mkdir p None]\<rparr>))"

text \<open>
  \<^verbatim>\<open>os.makedirs(name, exist_ok=...)\<close>: when the parent is missing it is made first, by
  the same function, and a \<^verbatim>\<open>FileExistsError\<close> from that call is swallowed; then
  \<^verbatim>\<open>mkdir(name)\<close> in its \<^verbatim>\<open>try\<close> block (\<open>mkdir_exist_ok\<close>), whose
  \<^verbatim>\<open>OSError\<close> is raised again unless \<^verbatim>\<open>exist_ok\<close> holds and the name is a
  directory. A name is a list of components here, so the library's cases for a trailing
  separator and for a last component \<^verbatim>\<open>.\<close> do not arise.
\<close>

definition mkdir_exist_ok :: "pathname \<Rightarrow> bool \<Rightarrow> world \<Rightarrow> (exn + unit) \<times> world" where
  "mkdir_exist_ok name exist_ok w =
     (case mkdir name w of
        (Inl e, w') \<Rightarrow> if \<not> exist_ok \<or> \<not> isdir w' name then (Inl e, w') else (Inr (), w')
      | (Inr u, w') \<Rightarrow> (Inr u, w'))"

function makedirs :: "pathname \<Rightarrow> bool \<Rightarrow> world \<Rightarrow> (exn + unit) \<times> world" where
  "makedirs name exist_ok w =
     (if butlast name \<noteq> [] \<and> \<not> exists w (butlast name) then
        (case makedirs (butlast name) exist_ok w of
           (Inl (OSError EEXIST), w') \<Rightarrow> mkdir_exist_ok name exist_ok w'
         | (Inl e, w') \<Rightarrow> (Inl e, w')
         | (Inr _, w') \<Rightarrow> mkdir_exist_ok name exist_ok w')
      else mkdir_exist_ok name exist_ok w)"
  by pat_completeness auto

termination
proof (relation "measure (\<lambda>(name, exist_ok, w). length name)")
  show "wf (measure (\<lambda>(name, exist_ok, w). length name))"
    by simp
next
  fix name :: pathname and exist_ok :: bool and w :: world
  assume "butlast name \<noteq> [] \<and> \<not> exists w (butlast name)"
  then have "name \<noteq> []"
    by auto
  then show "((butlast name, exist_ok, w), (name, exist_ok, w))
               \<in> measure (\<lambda>(name, exist_ok, w). length name)"
    by simp
qed

declare makedirs.simps [simp del]

text \<open>
  \<^verbatim>\<open>socketserver.TCPServer(server_address, Handler)\<close>: the constructor makes one
  socket, binds it and listens on it; when the bind fails it closes the socket and raises
  the error again.
\<close>

definition TCPServer :: "address \<Rightarrow> world \<Rightarrow> (exn + unit) \<times> world" where
  "TCPServer server_address w =
     (case bind_errno w server_address of
        Some e \<Rightarrow>
          (Inl (OSError e), w\<lparr>trace := trace w @ [Bind server_address (Some e), Close]\<rparr>)
      | None \<Rightarrow>
          (Inr (), w\<lparr>listening := True,
                     trace := trace w @ [Bind server_address None, Listen]\<rparr>))"

text \<open>\<^verbatim>\<open>server_close\<close>, which leaving the \<^verbatim>\<open>with\<close> block calls.\<close>

definition server_close :: "world \<Rightarrow> world" where
  "server_close w = w\<lparr>listening := False, trace := trace w @ [Close]\<rparr>"

text \<open>
  \<^verbatim>\<open>print(s)\<close>: one line on standard output, which is taken to accept the text.
\<close>

definition print :: "pystr \<Rightarrow> world \<Rightarrow> world" where
  "print s w = w\<lparr>trace := trace w @ [Write s]\<rparr>"

section \<open>The request handler\<close>

text \<open>The two constants of the module.\<close>

definition PORT :: int where
  "PORT = 8000"

definition SERVE_DIR :: pystr where
  "SERVE_DIR = ascii ''dist''"

text \<open>
  \<^verbatim>\<open>Handler\<close> is \<^verbatim>\<open>http.server.SimpleHTTPRequestHandler\<close> with
  \<^verbatim>\<open>directory=SERVE_DIR\<close>; it overrides nothing else, so every method below is the
  library's, read with \<^verbatim>\<open>self.directory = "dist"\<close>.
\<close>

definition directory :: pathname where
  "directory = [SERVE_DIR]"

text \<open>
  The class attribute \<^verbatim>\<open>protocol_version\<close> of \<^verbatim>\<open>BaseHTTPRequestHandler\<close>, which
  neither \<^verbatim>\<open>SimpleHTTPRequestHandler\<close> nor \<^verbatim>\<open>Handler\<close> sets;
  \<^verbatim>\<open>send_response_only\<close> writes it at the head of every status line.
\<close>

definition protocol_version :: pystr where
  "protocol_version = ascii ''HTTP/1.0''"

text \<open>
  Two functions of \<^verbatim>\<open>urllib.parse\<close> are parameters of the handler: the decoding of
  percent escapes (the \<^verbatim>\<open>try\<close> block around \<^verbatim>\<open>unquote\<close> in
  \<^verbatim>\<open>translate_path\<close>, for a string that has a \<^verbatim>\<open>%\<close>), and the path part of
  \<^verbatim>\<open>urlsplit\<close>, which decides the redirection of a directory.
\<close>

record urllib =
  unquote_escapes :: "pystr \<Rightarrow> pystr"
  urlsplit_path :: "pystr \<Rightarrow> pystr"

text \<open>\<^verbatim>\<open>unquote\<close> returns a string without \<^verbatim>\<open>%\<close> as it is.\<close>

definition unquote :: "urllib \<Rightarrow> pystr \<Rightarrow> pystr" where
  "unquote lib s = (if 37 \<notin> set s then s else unquote_escapes lib s)"

text \<open>\<^verbatim>\<open>posixpath.normpath\<close>; \<open>normpath_step\<close> is the body of its loop.\<close>

definition normpath_step :: "nat \<Rightarrow> pystr list \<Rightarrow> pystr \<Rightarrow> pystr list" where
  "normpath_step initial_slashes new_comps c =
     (if c = [] \<or> c = ascii ''.'' then new_comps
      else if c \<noteq> ascii ''..'' \<or> (initial_slashes = 0 \<and> new_comps = [])
              \<or> (new_comps \<noteq> [] \<and> last new_comps = ascii ''..'')
        then new_comps @ [c]
      else if new_comps \<noteq> [] then butlast new_comps
      else new_comps)"

definition normpath :: "pystr \<Rightarrow> pystr" where
  "normpath p =
     (if p = [] then ascii ''.''
      else
        let initial_slashes =
              (if startswith p (ascii ''/'') then
                 (if startswith p (ascii ''//'') \<and> \<not> startswith p (ascii ''///'')
                  then 2 else 1)
               else 0);
            comps = foldl (normpath_step initial_slashes) [] (py_split 47 p);
            q = replicate initial_slashes 47 @ py_join (ascii ''/'') comps
        in if q = [] then ascii ''.'' else q)"

text \<open>\<^verbatim>\<open>posixpath.dirname\<close>.\<close>

definition dirname :: "pystr \<Rightarrow> pystr" where
  "dirname p =
     (let head = rev (dropWhile (\<lambda>c. c \<noteq> 47) (rev p))
      in if head \<noteq> [] \<and> head \<noteq> replicate (length head) 47
         then rev (dropWhile (\<lambda>c. c = 47) (rev head)) else head)"

text \<open>
  \<^verbatim>\<open>translate_path\<close>: the file name below \<^verbatim>\<open>self.directory\<close> that a request target
  stands for, and whether the target ends with a slash (the library appends the slash
  to the name; here it is the second component).
\<close>

definition translate_path :: "urllib \<Rightarrow> pystr \<Rightarrow> pathname \<times> bool" where
  "translate_path lib p =
     (let p1 = takeWhile (\<lambda>c. c \<noteq> 63) p;
          p2 = takeWhile (\<lambda>c. c \<noteq> 35) p1;
          trailing_slash = endswith (rstrip p2) (ascii ''/'');
          p3 = normpath (unquote lib p2);
          words = filter (\<lambda>word. word \<noteq> []) (py_split 47 p3)
      in (foldl (\<lambda>name word.
                   if dirname word \<noteq> [] \<or> word = ascii ''.'' \<or> word = ascii ''..''
                   then name else name @ [word])
                directory words,
          trailing_slash))"

definition send_error :: "nat \<Rightarrow> nat \<times> payload" where
  "send_error code = (code, ErrorPage)"

text \<open>\<^verbatim>\<open>list_directory\<close>: the index page of a directory that \<^verbatim>\<open>os.listdir\<close> can read.\<close>

definition list_directory :: "world \<Rightarrow> pathname \<Rightarrow> nat \<times> payload" where
  "list_directory w name =
     (case fs w name of
        Some (Dir True) \<Rightarrow> (200, Listing name)
      | _ \<Rightarrow> send_error 404)"

text \<open>
  The second half of \<^verbatim>\<open>send_head\<close>, from the test for a trailing slash on:
  \<^verbatim>\<open>open(path, 'rb')\<close>, whose \<^verbatim>\<open>OSError\<close> is answered with 404, and the comparison
  of \<^verbatim>\<open>If-Modified-Since\<close> with the time of the last modification.
\<close>

definition send_file :: "world \<Rightarrow> request \<Rightarrow> pathname \<Rightarrow> bool \<Rightarrow> nat \<times> payload" where
  "send_file w r name trailing_slash =
     (if trailing_slash then send_error 404
      else
        (case fs w name of
           Some (File c last_modif True) \<Rightarrow>
             (case if_modified_since r of
                Some ims \<Rightarrow>
                  if \<not> if_none_match r \<and> last_modif \<le> ims then (304, NoBody)
                  else (200, FileContent c)
              | None \<Rightarrow> (200, FileContent c))
         | _ \<Rightarrow> send_error 404))"

definition send_head :: "urllib \<Rightarrow> world \<Rightarrow> request \<Rightarrow> nat \<times> payload" where
  "send_head lib w r =
     (case translate_path lib (path r) of
        (name, trailing_slash) \<Rightarrow>
          if isdir w name then
            (if \<not> endswith (urlsplit_path lib (path r)) (ascii ''/'') then (301, NoBody)
             else if isfile w (name @ [ascii ''index.html''])
               then send_file w r (name @ [ascii ''index.html'']) False
             else if isfile w (name @ [ascii ''index.htm''])
               then send_file w r (name @ [ascii ''index.htm'']) False
             else list_directory w name)
          else send_file w r name trailing_slash)"

definition do_GET :: "urllib \<Rightarrow> world \<Rightarrow> request \<Rightarrow> nat \<times> payload" where
  "do_GET lib w r = send_head lib w r"

definition do_HEAD :: "urllib \<Rightarrow> world \<Rightarrow> request \<Rightarrow> nat \<times> payload" where
  "do_HEAD lib w r = (fst (send_head lib w r), NoBody)"

text \<open>
  \<^verbatim>\<open>handle_one_request\<close> after \<^verbatim>\<open>parse_request\<close>: the method \<^verbatim>\<open>do_\<close> + command
  when the handler has one, 501 otherwise.
\<close>

definition handle_one_request :: "urllib \<Rightarrow> world \<Rightarrow> request \<Rightarrow> response" where
  "handle_one_request lib w r =
     (case (if command r = ascii ''GET'' then do_GET lib w r
            else if command r = ascii ''HEAD'' then do_HEAD lib w r
            else send_error 501) of
        (code, page) \<Rightarrow> \<lparr>version = protocol_version, status = code, body = page\<rparr>)"

section \<open>The script\<close>

text \<open>
  What reaches the listening process: a connection carrying one request, or the
  interrupt signal of Ctrl+C.
\<close>

datatype event = Connection request | Interrupt

text \<open>
  A run is observed over a finite list of events. \<open>Serving\<close>: the events are used up
  and the process waits in \<^verbatim>\<open>serve_forever\<close>. \<open>Raised e\<close>: the exception \<open>e\<close> has
  left the script unhandled.
\<close>

datatype outcome = Serving | Raised exn

text \<open>
  \<^verbatim>\<open>serve_forever\<close>: one request at a time. \<^verbatim>\<open>KeyboardInterrupt\<close> is not an
  \<^verbatim>\<open>Exception\<close>, so the loop does not catch it.
\<close>

fun serve_forever :: "urllib \<Rightarrow> event list \<Rightarrow> world \<Rightarrow> outcome \<times> world" where
  "serve_forever lib [] w = (Serving, w)"
| "serve_forever lib (Interrupt # events) w = (Raised KeyboardInterrupt, w)"
| "serve_forever lib (Connection r # events) w =
     serve_forever lib events (w\<lparr>trace := trace w @ [Reply r (handle_one_request lib w r)]\<rparr>)"

definition line1 :: pystr where
  "line1 = [127760] @ ascii '' Serving at http://localhost:'' @ str_int PORT"

definition line2 :: pystr where
  "line2 = [128193] @ ascii '' Serving directory: '' @ SERVE_DIR @ ascii ''/''"

definition line3 :: pystr where
  "line3 = ascii ''Press Ctrl+C to stop''"

text \<open>
  The module, top to bottom. The \<^verbatim>\<open>with\<close> statement has no \<^verbatim>\<open>except\<close> clause:
  when its body raises, \<^verbatim>\<open>__exit__\<close> closes the server and the exception goes on.
\<close>

definition script :: "urllib \<Rightarrow> event list \<Rightarrow> world \<Rightarrow> outcome \<times> world" where
  "script lib events w =
     (case makedirs [SERVE_DIR] True w of
        (Inl e, w1) \<Rightarrow> (Raised e, w1)
      | (Inr _, w1) \<Rightarrow>
          (case TCPServer (ascii [], PORT) w1 of
             (Inl e, w2) \<Rightarrow> (Raised e, w2)
           | (Inr _, w2) \<Rightarrow>
               (case serve_forever lib events (print line3 (print line2 (print line1 w2))) of
                  (Raised e, w3) \<Rightarrow> (Raised e, server_close w3)
                | (Serving, w3) \<Rightarrow> (Serving, w3))))"

text \<open>
  The end of the process, by the interpreter: an unhandled \<^verbatim>\<open>KeyboardInterrupt\<close>
  makes it kill itself with SIGINT (signal 2); any other unhandled exception is exit
  code 1; in both cases the traceback goes to standard error. A process that is still
  serving has not ended.
\<close>

datatype exit_status = ExitCode nat | KilledBySignal nat

fun process_end :: "outcome \<Rightarrow> exit_status option" where
  "process_end Serving = None"
| "process_end (Raised KeyboardInterrupt) = Some (KilledBySignal 2)"
| "process_end (Raised (OSError e)) = Some (ExitCode 1)"

fun traceback :: "outcome \<Rightarrow> exn option" where
  "traceback Serving = None"
| "traceback (Raised e) = Some e"

text \<open>Observations on a trace.\<close>

fun written :: "syscall \<Rightarrow> pystr list" where
  "written (Write s) = [s]"
| "written _ = []"

definition stdout :: "world \<Rightarrow> pystr list" where
  "stdout w = concat (map written (trace w))"

fun is_reply :: "syscall \<Rightarrow> bool" where
  "is_reply (Reply r a) = True"
| "is_reply _ = False"

fun is_bind :: "syscall \<Rightarrow> bool" where
  "is_bind (Bind a e) = True"
| "is_bind _ = False"

fun is_mkdir :: "syscall \<Rightarrow> bool" where
  "is_mkdir (Mkdir p e) = True"
| "is_mkdir _ = False"

fun is_write :: "syscall \<Rightarrow> bool" where
  "is_write (Write s) = True"
| "is_write _ = False"

text \<open>A world in which nothing has happened yet: the state at process start.\<close>

definition fresh :: "(pathname \<rightharpoonup> node) \<Rightarrow> bool \<Rightarrow> (address \<rightharpoonup> oserror) \<Rightarrow> world" where
  "fresh files denied errs =
     \<lparr>fs = files, mkdir_denied = denied, bind_errno = errs, listening = False, trace = []\<rparr>"

text \<open>
  The requests that a list of events lets the server accept: those that arrive before
  the first interrupt. \<open>replies\<close> are the answers of the handler to them, in a world
  whose files are those of \<open>w\<close>.
\<close>

fun accepted :: "event list \<Rightarrow> request list" where
  "accepted [] = []"
| "accepted (Interrupt # events) = []"
| "accepted (Connection r # events) = r # accepted events"

definition replies :: "urllib \<Rightarrow> world \<Rightarrow> event list \<Rightarrow> syscall list" where
  "replies lib w events = map (\<lambda>r. Reply r (handle_one_request lib w r)) (accepted events)"

text \<open>\<^verbatim>\<open>os.makedirs(SERVE_DIR, exist_ok=True)\<close> returns without raising.\<close>

definition mkdir_ok :: "world \<Rightarrow> bool" where
  "mkdir_ok w \<longleftrightarrow> mkdir_errno w [SERVE_DIR] = None \<or> isdir w [SERVE_DIR]"


subsection \<open>Inputs for the examples\<close>

text \<open>
  An empty working directory; a built site with one page, last modified at second 100;
  a free port and a port that another process holds.
\<close>

definition no_files :: "pathname \<rightharpoonup> node" where
  "no_files = Map.empty"

definition site :: "pathname \<rightharpoonup> node" where
  "site = [[SERVE_DIR] \<mapsto> Dir True,
           [SERVE_DIR, ascii ''index.html''] \<mapsto> File ''hello'' 100 True]"

definition port_free :: "address \<rightharpoonup> oserror" where
  "port_free = Map.empty"

definition port_taken :: "address \<rightharpoonup> oserror" where
  "port_taken = [(ascii [], PORT) \<mapsto> EADDRINUSE]"

text \<open>
  The targets of the examples are in origin form and have no percent escape: there
  \<^verbatim>\<open>urlsplit(target).path\<close> is the target up to \<^verbatim>\<open>?\<close> or \<^verbatim>\<open>#\<close>, and the decoder
  of escapes is never asked.
\<close>

definition plain :: urllib where
  "plain = \<lparr>unquote_escapes = id, urlsplit_path = takeWhile (\<lambda>c. c \<noteq> 63 \<and> c \<noteq> 35)\<rparr>"

definition get_index :: request where
  "get_index = \<lparr>command = ascii ''GET'', path = ascii ''/index.html'',
                 if_modified_since = None, if_none_match = False\<rparr>"


definition get_missing :: request where
  "get_missing = \<lparr>command = ascii ''GET'', path = ascii ''/missing.html'',
                   if_modified_since = None, if_none_match = False\<rparr>"

section \<open>Lemmas on the parts of the script\<close>

lemma ascii_Nil [simp]: "ascii [] = []"
  by (simp add: ascii_def)

lemma makedirs_single: "makedirs [d] exist_ok w = mkdir_exist_ok [d] exist_ok w"
  by (simp add: makedirs.simps)

lemma makedirs_SERVE_DIR:
  "makedirs [SERVE_DIR] True w =
     (case mkdir_errno w [SERVE_DIR] of
        None \<Rightarrow> (Inr (), w\<lparr>fs := (fs w)([SERVE_DIR] \<mapsto> Dir True),
                           trace := trace w @ [Mkdir [SERVE_DIR] None]\<rparr>)
      | Some e \<Rightarrow> (if isdir w [SERVE_DIR] then Inr () else Inl (OSError e),
                   w\<lparr>trace := trace w @ [Mkdir [SERVE_DIR] (Some e)]\<rparr>))"
  by (simp add: makedirs_single mkdir_exist_ok_def mkdir_def isdir_def split: option.splits)

text \<open>The handler reads the files of the world and nothing else of it.\<close>

lemma isdir_fs: "fs w1 = fs w2 \<Longrightarrow> isdir w1 p = isdir w2 p"
  by (simp add: isdir_def)

lemma isfile_fs: "fs w1 = fs w2 \<Longrightarrow> isfile w1 p = isfile w2 p"
  by (simp add: isfile_def)

lemma send_file_fs: "fs w1 = fs w2 \<Longrightarrow> send_file w1 r p b = send_file w2 r p b"
  by (simp add: send_file_def)

lemma list_directory_fs: "fs w1 = fs w2 \<Longrightarrow> list_directory w1 p = list_directory w2 p"
  by (simp add: list_directory_def)

lemma send_head_fs:
  assumes "fs w1 = fs w2"
  shows "send_head lib w1 r = send_head lib w2 r"
  unfolding send_head_def
  by (simp add: isdir_fs [OF assms] isfile_fs [OF assms] send_file_fs [OF assms]
      list_directory_fs [OF assms] cong: if_cong split: prod.splits)

lemma handle_one_request_fs:
  "fs w1 = fs w2 \<Longrightarrow> handle_one_request lib w1 r = handle_one_request lib w2 r"
  by (simp add: handle_one_request_def do_GET_def do_HEAD_def send_head_fs [of w1 w2])

lemma replies_fs: "fs w1 = fs w2 \<Longrightarrow> replies lib w1 events = replies lib w2 events"
  by (simp add: replies_def handle_one_request_fs [of w1 w2])

text \<open>The loop: what it adds to the trace, how it ends, what it leaves alone.\<close>

lemma serve_forever_trace:
  "trace (snd (serve_forever lib events w)) = trace w @ replies lib w events"
proof (induction lib events w rule: serve_forever.induct)
  case (1 lib w)
  show ?case by (simp add: replies_def)
next
  case (2 lib events w)
  show ?case by (simp add: replies_def)
next
  case (3 lib r events w)
  have "replies lib (w\<lparr>trace := trace w @ [Reply r (handle_one_request lib w r)]\<rparr>) events
          = replies lib w events"
    by (rule replies_fs) simp
  with 3 show ?case by (simp add: replies_def)
qed

lemma serve_forever_fst:
  "fst (serve_forever lib events w) =
     (if Interrupt \<in> set events then Raised KeyboardInterrupt else Serving)"
  by (induction lib events w rule: serve_forever.induct) simp_all

lemma serve_forever_fs [simp]: "fs (snd (serve_forever lib events w)) = fs w"
  by (induction lib events w rule: serve_forever.induct) simp_all

lemma serve_forever_listening [simp]:
  "listening (snd (serve_forever lib events w)) = listening w"
  by (induction lib events w rule: serve_forever.induct) simp_all

lemma with_block:
  "(case serve_forever lib events w of
      (Raised e, w3) \<Rightarrow> (Raised e, server_close w3)
    | (Serving, w3) \<Rightarrow> (Serving, w3)) =
   (if Interrupt \<in> set events
    then (Raised KeyboardInterrupt, server_close (snd (serve_forever lib events w)))
    else (Serving, snd (serve_forever lib events w)))"
proof (cases "serve_forever lib events w")
  case (Pair out w3)
  with serve_forever_fst [of lib events w] show ?thesis
    by (auto split: outcome.splits)
qed

text \<open>The script, field by field of its result.\<close>

lemma script_outcome:
  "fst (script lib events w) =
     (if \<not> mkdir_ok w then Raised (OSError (the (mkdir_errno w [SERVE_DIR])))
      else case bind_errno w ([], PORT) of
             Some e \<Rightarrow> Raised (OSError e)
           | None \<Rightarrow> if Interrupt \<in> set events then Raised KeyboardInterrupt else Serving)"
  by (auto simp: script_def makedirs_SERVE_DIR TCPServer_def with_block mkdir_ok_def
      split: option.splits)

lemma script_fs:
  "fs (snd (script lib events w)) =
     (if mkdir_errno w [SERVE_DIR] = None then (fs w)([SERVE_DIR] \<mapsto> Dir True) else fs w)"
  by (auto simp: script_def makedirs_SERVE_DIR TCPServer_def with_block print_def
      server_close_def split: option.splits)

lemma script_listening:
  "listening (snd (script lib events w)) =
     (if mkdir_ok w \<and> bind_errno w ([], PORT) = None then Interrupt \<notin> set events
      else listening w)"
  by (auto simp: script_def makedirs_SERVE_DIR TCPServer_def with_block print_def
      server_close_def mkdir_ok_def split: option.splits)

lemma script_trace:
  "trace (snd (script lib events w)) =
     trace w @ [Mkdir [SERVE_DIR] (mkdir_errno w [SERVE_DIR])] @
     (if \<not> mkdir_ok w then []
      else case bind_errno w ([], PORT) of
             Some e \<Rightarrow> [Bind ([], PORT) (Some e), Close]
           | None \<Rightarrow>
               [Bind ([], PORT) None, Listen, Write line1, Write line2, Write line3] @
               replies lib (snd (script lib events w)) events @
               (if Interrupt \<in> set events then [Close] else []))"
  by (auto simp: script_def makedirs_SERVE_DIR TCPServer_def with_block print_def
      server_close_def mkdir_ok_def serve_forever_trace split: option.splits
      intro!: replies_fs)

text \<open>A process starts in a fresh world.\<close>

lemma fresh_fields [simp]:
  "fs (fresh files denied errs) = files"
  "mkdir_denied (fresh files denied errs) = denied"
  "bind_errno (fresh files denied errs) = errs"
  "listening (fresh files denied errs) = False"
  "trace (fresh files denied errs) = []"
  by (simp_all add: fresh_def)

lemma mkdir_errno_fresh:
  "mkdir_errno (fresh files denied errs) [SERVE_DIR] =
     (if files [SERVE_DIR] \<noteq> None then Some EEXIST
      else if denied then Some EACCES else None)"
  by (simp add: mkdir_errno_def exists_def isdir_def)

lemma mkdir_ok_fresh:
  "mkdir_ok (fresh files denied errs) \<longleftrightarrow>
     (files [SERVE_DIR] = None \<and> \<not> denied) \<or> (\<exists>b. files [SERVE_DIR] = Some (Dir b))"
  by (auto simp: mkdir_ok_def mkdir_errno_fresh isdir_def split: option.splits node.splits)

lemma replies_no_write [simp]: "concat (map written (replies lib w events)) = []"
  by (simp add: replies_def)

lemma started_iff:
  "Listen \<in> set (trace (snd (script lib events (fresh files denied errs)))) \<longleftrightarrow>
     mkdir_ok (fresh files denied errs) \<and> errs ([], PORT) = None"
  by (auto simp: script_trace replies_def split: option.splits)

lemma started_trace:
  assumes "Listen \<in> set (trace (snd (script lib events (fresh files denied errs))))"
  shows "trace (snd (script lib events (fresh files denied errs))) =
      [Mkdir [SERVE_DIR] (mkdir_errno (fresh files denied errs) [SERVE_DIR]),
       Bind ([], PORT) None, Listen, Write line1, Write line2, Write line3]
      @ replies lib (snd (script lib events (fresh files denied errs))) events
      @ (if Interrupt \<in> set events then [Close] else [])"
proof -
  from assms have "mkdir_ok (fresh files denied errs)" and "errs ([], PORT) = None"
    by (simp_all add: started_iff)
  then show ?thesis
    by (subst script_trace) simp
qed




lemma replies_is_reply [simp]: "filter is_reply (replies lib w events) = replies lib w events"
  by (simp add: replies_def filter_map comp_def)

lemma replies_no_bind [simp]: "filter is_bind (replies lib w events) = []"
  by (simp add: replies_def filter_map comp_def)

lemma replies_no_Listen [simp]: "Listen \<notin> set (replies lib w events)"
  by (auto simp: replies_def)

lemma replies_no_Close [simp]: "Close \<notin> set (replies lib w events)"
  by (auto simp: replies_def)

lemma bound_iff:
  "list_ex is_bind (trace (snd (script lib events (fresh files denied errs)))) \<longleftrightarrow>
     mkdir_ok (fresh files denied errs)"
  by (auto simp: script_trace replies_def list_ex_iff split: option.splits)

lemma serve_forever_mkdir_denied [simp]:
  "mkdir_denied (snd (serve_forever lib events w)) = mkdir_denied w"
  by (induction lib events w rule: serve_forever.induct) simp_all

lemma script_mkdir_denied [simp]:
  "mkdir_denied (snd (script lib events w)) = mkdir_denied w"
  by (auto simp: script_def makedirs_SERVE_DIR TCPServer_def with_block print_def
      server_close_def split: option.splits prod.splits)














lemma site_dist: "site [SERVE_DIR] = Some (Dir True)"
  by (simp add: site_def)



lemma fs_script_site [simp]: "fs (snd (script lib events (fresh site denied errs))) = site"
  by (simp add: script_fs mkdir_errno_fresh site_dist)









section \<open>The status lines\<close>




section \<open>The interrupt\<close>

text \<open>
  C2, as amended. When the started server receives the interrupt of Ctrl+C, it stops
  accepting connections: leaving the \<^verbatim>\<open>with\<close> block closes the listening socket,
  which is the last call of the process, and only the requests that came before the
  interrupt are answered. Nothing in the script catches \<^verbatim>\<open>KeyboardInterrupt\<close>: it
  leaves the module unhandled, the interpreter prints its traceback, and the process
  ends killed by SIGINT, not with exit code 0.
\<close>

theorem interrupt_closes_and_raises:
  assumes "r = fst (script lib events (fresh files denied errs))"
    and "w' = snd (script lib events (fresh files denied errs))"
    and "Listen \<in> set (trace w')"
    and "Interrupt \<in> set events"
  shows "r = Raised KeyboardInterrupt
    \<and> traceback r = Some KeyboardInterrupt
    \<and> process_end r = Some (KilledBySignal 2)
    \<and> \<not> listening w'
    \<and> last (trace w') = Close
    \<and> filter is_reply (trace w') =
        map (\<lambda>q. Reply q (handle_one_request lib w' q)) (accepted events)"
proof -
  from assms(2,3) have ok: "mkdir_ok (fresh files denied errs)" and free: "errs ([], PORT) = None"
    by (simp_all add: started_iff)
  have r: "r = Raised KeyboardInterrupt"
    unfolding assms(1) by (simp add: script_outcome ok free assms(4))
  have l: "\<not> listening w'"
    unfolding assms(2) by (simp add: script_listening ok free assms(4))
  have tr: "trace w' =
      [Mkdir [SERVE_DIR] (mkdir_errno (fresh files denied errs) [SERVE_DIR]),
       Bind ([], PORT) None, Listen, Write line1, Write line2, Write line3]
      @ replies lib w' events @ [Close]"
    using started_trace [of lib events files denied errs] assms(2,3,4) by simp
  have "filter is_reply (trace w') = replies lib w' events"
    unfolding tr by simp
  with r l tr show ?thesis
    by (simp add: replies_def)
qed

text \<open>
  The theorem on the built site, with one request before the interrupt and one after
  it: one reply.
\<close>

theorem interrupt_closes_and_raises_witness:
  "Listen \<in> set (trace (snd (script plain [Connection get_index, Interrupt, Connection get_missing]
                               (fresh site False port_free))))
   \<and> Interrupt \<in> set [Connection get_index, Interrupt, Connection get_missing]
   \<and> fst (script plain [Connection get_index, Interrupt, Connection get_missing]
            (fresh site False port_free)) = Raised KeyboardInterrupt
   \<and> \<not> listening (snd (script plain [Connection get_index, Interrupt, Connection get_missing]
                         (fresh site False port_free)))
   \<and> length (filter is_reply
        (trace (snd (script plain [Connection get_index, Interrupt, Connection get_missing]
                      (fresh site False port_free))))) = 1"
proof -
  have h: "Listen \<in> set (trace (snd (script plain
              [Connection get_index, Interrupt, Connection get_missing]
              (fresh site False port_free))))"
    by (auto simp: started_iff mkdir_ok_fresh site_def port_free_def)
  have i: "Interrupt \<in> set [Connection get_index, Interrupt, Connection get_missing]"
    by simp
  from interrupt_closes_and_raises [OF refl refl h i] h show ?thesis
    by simp
qed

text \<open>
  C2 as the specification states it: no unhandled error, exit code 0. An interrupt of
  the started server ends the script with \<^verbatim>\<open>KeyboardInterrupt\<close> unhandled, and the
  process does not exit with code 0.
\<close>

theorem clean_exit_counterexample:
  "Listen \<in> set (trace (snd (script plain [Interrupt] (fresh no_files False port_free))))
   \<and> fst (script plain [Interrupt] (fresh no_files False port_free)) = Raised KeyboardInterrupt
   \<and> traceback (fst (script plain [Interrupt] (fresh no_files False port_free)))
       = Some KeyboardInterrupt
   \<and> process_end (fst (script plain [Interrupt] (fresh no_files False port_free)))
       \<noteq> Some (ExitCode 0)"
  by (simp add: started_iff script_outcome mkdir_ok_fresh no_files_def port_free_def)

section \<open>The root directory\<close>

text \<open>
  C3. At every process start the script comes to bind the port exactly when
  \<^verbatim>\<open>dist\<close> is absent and can be made, or is already a directory; and whenever it
  comes to bind, \<^verbatim>\<open>dist\<close> is a directory in the world that \<^verbatim>\<open>os.makedirs\<close> hands
  on and stays one: it has been created if it was absent, and nothing else of the file
  system has changed. The mkdir is the first call of the process and the bind the
  second, so the directory exists before the port is bound and before any connection
  is accepted.
\<close>

theorem root_directory_exists_before_bind:
  assumes "w' = snd (script lib events (fresh files denied errs))"
  shows "(list_ex is_bind (trace w') \<longleftrightarrow>
            (files [SERVE_DIR] = None \<and> \<not> denied) \<or> (\<exists>b. files [SERVE_DIR] = Some (Dir b)))
    \<and> (list_ex is_bind (trace w') \<longrightarrow>
          isdir (snd (makedirs [SERVE_DIR] True (fresh files denied errs))) [SERVE_DIR]
        \<and> isdir w' [SERVE_DIR]
        \<and> fs w' = (case files [SERVE_DIR] of
                     None \<Rightarrow> files([SERVE_DIR] \<mapsto> Dir True) | Some n \<Rightarrow> files)
        \<and> (\<exists>x rest. trace w' = Mkdir [SERVE_DIR] x # Bind ([], PORT) (errs ([], PORT)) # rest
              \<and> \<not> list_ex is_mkdir rest \<and> \<not> list_ex is_bind rest))"
proof (intro conjI impI)
  show "list_ex is_bind (trace w') \<longleftrightarrow>
      (files [SERVE_DIR] = None \<and> \<not> denied) \<or> (\<exists>b. files [SERVE_DIR] = Some (Dir b))"
    unfolding assms by (simp add: bound_iff mkdir_ok_fresh)
next
  assume "list_ex is_bind (trace w')"
  then have ok: "mkdir_ok (fresh files denied errs)"
    unfolding assms by (simp add: bound_iff)
  then show "isdir (snd (makedirs [SERVE_DIR] True (fresh files denied errs))) [SERVE_DIR]"
    by (auto simp: makedirs_SERVE_DIR mkdir_ok_def isdir_def split: option.splits)
  from ok show "isdir w' [SERVE_DIR]"
    unfolding assms by (auto simp: isdir_def script_fs mkdir_ok_def)
  from ok show "fs w' = (case files [SERVE_DIR] of
                     None \<Rightarrow> files([SERVE_DIR] \<mapsto> Dir True) | Some n \<Rightarrow> files)"
    unfolding assms by (auto simp: script_fs mkdir_errno_fresh mkdir_ok_fresh)
  from ok show "\<exists>x rest. trace w' = Mkdir [SERVE_DIR] x # Bind ([], PORT) (errs ([], PORT)) # rest
              \<and> \<not> list_ex is_mkdir rest \<and> \<not> list_ex is_bind rest"
    unfolding assms by (auto simp: script_trace replies_def list_ex_iff split: option.splits)
qed

text \<open>
  The theorem at two starts: in an empty working directory, where \<^verbatim>\<open>dist\<close> is
  created, and on the built site, where it is found.
\<close>

theorem root_directory_exists_before_bind_witness:
  "list_ex is_bind (trace (snd (script plain [] (fresh no_files False port_free))))
   \<and> isdir (snd (script plain [] (fresh no_files False port_free))) [SERVE_DIR]
   \<and> fs (snd (script plain [] (fresh no_files False port_free))) = no_files([SERVE_DIR] \<mapsto> Dir True)
   \<and> list_ex is_bind (trace (snd (script plain [] (fresh site False port_taken))))
   \<and> isdir (snd (script plain [] (fresh site False port_taken))) [SERVE_DIR]
   \<and> fs (snd (script plain [] (fresh site False port_taken))) = site"
proof -
  have h1: "list_ex is_bind (trace (snd (script plain [] (fresh no_files False port_free))))"
    by (simp add: bound_iff mkdir_ok_fresh no_files_def)
  have h2: "list_ex is_bind (trace (snd (script plain [] (fresh site False port_taken))))"
    by (auto simp: bound_iff mkdir_ok_fresh site_def)
  from root_directory_exists_before_bind [OF refl, of plain "[]" no_files False port_free]
    root_directory_exists_before_bind [OF refl, of plain "[]" site False port_taken]
    h1 h2
  show ?thesis
    by (simp add: no_files_def site_def)
qed

section \<open>The listening socket\<close>

text \<open>
  C7. A server that has started has made exactly one bind, to the address
  \<^verbatim>\<open>("", 8000)\<close>: the empty host name is the wildcard address, every local interface,
  not the loopback alone. It listens on that one socket once, and the bind and the listen
  come before every reply in the trace: connections are accepted only after them.
\<close>

theorem binds_all_interfaces_then_accepts:
  assumes "w' = snd (script lib events (fresh files denied errs))"
    and "Listen \<in> set (trace w')"
  shows "filter is_bind (trace w') = [Bind (ascii '''', 8000) None]
    \<and> filter (\<lambda>c. c = Listen) (trace w') = [Listen]
    \<and> (\<exists>x. trace w' =
          [Mkdir [SERVE_DIR] x, Bind (ascii '''', 8000) None, Listen,
           Write line1, Write line2, Write line3]
          @ replies lib w' events @ (if Interrupt \<in> set events then [Close] else []))"
proof -
  have tr: "trace w' =
      [Mkdir [SERVE_DIR] (mkdir_errno (fresh files denied errs) [SERVE_DIR]),
       Bind ([], PORT) None, Listen, Write line1, Write line2, Write line3]
      @ replies lib w' events @ (if Interrupt \<in> set events then [Close] else [])"
    using assms(2) unfolding assms(1) by (rule started_trace)
  have "filter (\<lambda>c. c = Listen) (replies lib w' events) = []"
    by (auto simp: filter_empty_conv replies_def)
  with tr show ?thesis
    by (simp add: PORT_def)
qed

text \<open>The theorem on the built site, with one request.\<close>

theorem binds_all_interfaces_then_accepts_witness:
  "Listen \<in> set (trace (snd (script plain [Connection get_index] (fresh site False port_free))))
   \<and> filter is_bind (trace (snd (script plain [Connection get_index] (fresh site False port_free))))
       = [Bind (ascii '''', 8000) None]"
proof -
  have h: "Listen \<in> set (trace (snd (script plain [Connection get_index]
             (fresh site False port_free))))"
    by (auto simp: started_iff mkdir_ok_fresh site_def port_free_def)
  from binds_all_interfaces_then_accepts [OF refl h] h show ?thesis
    by simp
qed

text \<open>
  C8. When the bind of the port fails with an error \<open>e\<close>, that \<^verbatim>\<open>OSError\<close> leaves
  the script unhandled: the interpreter prints its traceback and the process exits with
  code 1. The bind was tried once and not again, the socket is closed, the server never
  listens and no request is answered.
\<close>

theorem bind_failure_is_fatal:
  assumes "r = fst (script lib events (fresh files denied errs))"
    and "w' = snd (script lib events (fresh files denied errs))"
    and "errs (ascii '''', PORT) = Some e"
    and "list_ex is_bind (trace w')"
  shows "r = Raised (OSError e)
    \<and> traceback r = Some (OSError e)
    \<and> process_end r = Some (ExitCode 1)
    \<and> filter is_bind (trace w') = [Bind (ascii '''', PORT) (Some e)]
    \<and> Listen \<notin> set (trace w')
    \<and> \<not> listening w'
    \<and> \<not> list_ex is_reply (trace w')
    \<and> last (trace w') = Close"
proof -
  from assms(2,4) have ok: "mkdir_ok (fresh files denied errs)"
    by (simp add: bound_iff)
  from assms(3) have e: "errs ([], PORT) = Some e"
    by simp
  have "r = Raised (OSError e)"
    unfolding assms(1) by (simp add: script_outcome ok e)
  moreover have "\<not> listening w'"
    unfolding assms(2) by (simp add: script_listening ok e)
  moreover have "trace w' =
      [Mkdir [SERVE_DIR] (mkdir_errno (fresh files denied errs) [SERVE_DIR]),
       Bind ([], PORT) (Some e), Close]"
    unfolding assms(2) by (subst script_trace) (simp add: ok e)
  ultimately show ?thesis
    by simp
qed

text \<open>The theorem on the built site when another process holds port 8000.\<close>

theorem bind_failure_is_fatal_witness:
  "port_taken (ascii '''', PORT) = Some EADDRINUSE
   \<and> list_ex is_bind (trace (snd (script plain [Connection get_index] (fresh site False port_taken))))
   \<and> fst (script plain [Connection get_index] (fresh site False port_taken))
       = Raised (OSError EADDRINUSE)
   \<and> process_end (fst (script plain [Connection get_index] (fresh site False port_taken)))
       = Some (ExitCode 1)"
proof -
  have e: "port_taken (ascii '''', PORT) = Some EADDRINUSE"
    by (simp add: port_taken_def)
  have h: "list_ex is_bind (trace (snd (script plain [Connection get_index]
             (fresh site False port_taken))))"
    by (auto simp: bound_iff mkdir_ok_fresh site_def)
  from bind_failure_is_fatal [OF refl refl e h] e h show ?thesis
    by simp
qed

text \<open>
  C10. Startup is not atomic. When the script comes to bind the port and the bind fails,
  \<^verbatim>\<open>dist\<close> is a directory all the same: it has been created if it was absent, and
  nothing else of the file system has changed. No status line has been printed. The
  process made three calls: the mkdir, the failed bind, the close of the socket.
\<close>

theorem bind_failure_leaves_directory:
  assumes "r = fst (script lib events (fresh files denied errs))"
    and "w' = snd (script lib events (fresh files denied errs))"
    and "errs (ascii '''', PORT) = Some e"
    and "list_ex is_bind (trace w')"
  shows "r = Raised (OSError e)
    \<and> isdir w' [SERVE_DIR]
    \<and> fs w' = (case files [SERVE_DIR] of
                 None \<Rightarrow> files([SERVE_DIR] \<mapsto> Dir True) | Some n \<Rightarrow> files)
    \<and> stdout w' = []
    \<and> trace w' =
         [Mkdir [SERVE_DIR] (case files [SERVE_DIR] of None \<Rightarrow> None | Some n \<Rightarrow> Some EEXIST),
          Bind (ascii '''', PORT) (Some e), Close]"
proof -
  from assms(2,4) have ok: "mkdir_ok (fresh files denied errs)"
    by (simp add: bound_iff)
  then have no: "mkdir_errno (fresh files denied errs) [SERVE_DIR]
      = (case files [SERVE_DIR] of None \<Rightarrow> None | Some n \<Rightarrow> Some EEXIST)"
    by (auto simp: mkdir_ok_fresh mkdir_errno_fresh)
  from assms(3) have e: "errs ([], PORT) = Some e"
    by simp
  have "r = Raised (OSError e)"
    unfolding assms(1) by (simp add: script_outcome ok e)
  moreover have f: "fs w' = (case files [SERVE_DIR] of
                 None \<Rightarrow> files([SERVE_DIR] \<mapsto> Dir True) | Some n \<Rightarrow> files)"
    unfolding assms(2) by (simp add: script_fs no split: option.splits)
  moreover from ok have "isdir w' [SERVE_DIR]"
    unfolding isdir_def f by (auto simp: mkdir_ok_fresh)
  moreover have tr: "trace w' =
         [Mkdir [SERVE_DIR] (case files [SERVE_DIR] of None \<Rightarrow> None | Some n \<Rightarrow> Some EEXIST),
          Bind ([], PORT) (Some e), Close]"
    unfolding assms(2) by (subst script_trace) (simp add: ok e no)
  moreover have "stdout w' = []"
    unfolding stdout_def tr by simp
  ultimately show ?thesis
    by simp
qed

text \<open>The theorem in an empty working directory when another process holds port 8000.\<close>

theorem bind_failure_leaves_directory_witness:
  "port_taken (ascii '''', PORT) = Some EADDRINUSE
   \<and> list_ex is_bind (trace (snd (script plain [] (fresh no_files False port_taken))))
   \<and> no_files [SERVE_DIR] = None
   \<and> fs (snd (script plain [] (fresh no_files False port_taken))) [SERVE_DIR] = Some (Dir True)
   \<and> stdout (snd (script plain [] (fresh no_files False port_taken))) = []
   \<and> fst (script plain [] (fresh no_files False port_taken)) = Raised (OSError EADDRINUSE)"
proof -
  have e: "port_taken (ascii '''', PORT) = Some EADDRINUSE"
    by (simp add: port_taken_def)
  have n: "no_files [SERVE_DIR] = None"
    by (simp add: no_files_def)
  have h: "list_ex is_bind (trace (snd (script plain [] (fresh no_files False port_taken))))"
    by (simp add: bound_iff mkdir_ok_fresh n)
  from bind_failure_leaves_directory [OF refl refl e h] e n h show ?thesis
    by simp
qed

text \<open>
  C9. When \<^verbatim>\<open>dist\<close> is already a directory, \<^verbatim>\<open>os.makedirs\<close> does not raise and
  leaves the whole file system as it was, and so does the script. In every world, making
  the directory twice gives the file system that making it once gives, and so does
  running the script a second time after the first.
\<close>

theorem existing_directory_unchanged:
  "(fs w [SERVE_DIR] = Some (Dir b) \<longrightarrow>
       fst (makedirs [SERVE_DIR] True w) = Inr ()
     \<and> fs (snd (makedirs [SERVE_DIR] True w)) = fs w
     \<and> fs (snd (script lib events w)) = fs w)
   \<and> fs (snd (makedirs [SERVE_DIR] True (snd (makedirs [SERVE_DIR] True w))))
       = fs (snd (makedirs [SERVE_DIR] True w))
   \<and> fs (snd (script lib2 events2 (snd (script lib events w)))) = fs (snd (script lib events w))"
proof (intro conjI impI)
  assume d: "fs w [SERVE_DIR] = Some (Dir b)"
  then have e: "mkdir_errno w [SERVE_DIR] = Some EEXIST"
    by (simp add: mkdir_errno_def exists_def)
  from d show "fst (makedirs [SERVE_DIR] True w) = Inr ()"
    by (simp add: makedirs_SERVE_DIR e isdir_def)
  show "fs (snd (makedirs [SERVE_DIR] True w)) = fs w"
    by (simp add: makedirs_SERVE_DIR e)
  show "fs (snd (script lib events w)) = fs w"
    by (simp add: script_fs e)
next
  show "fs (snd (makedirs [SERVE_DIR] True (snd (makedirs [SERVE_DIR] True w))))
       = fs (snd (makedirs [SERVE_DIR] True w))"
    by (auto simp: makedirs_SERVE_DIR mkdir_errno_def exists_def isdir_def
        split: option.splits if_splits)
next
  show "fs (snd (script lib2 events2 (snd (script lib events w)))) = fs (snd (script lib events w))"
    by (auto simp: script_fs mkdir_errno_def exists_def isdir_def split: if_splits)
qed

text \<open>The theorem on the built site.\<close>

theorem existing_directory_unchanged_witness:
  "fs (fresh site False port_free) [SERVE_DIR] = Some (Dir True)
   \<and> fst (makedirs [SERVE_DIR] True (fresh site False port_free)) = Inr ()
   \<and> fs (snd (makedirs [SERVE_DIR] True (fresh site False port_free))) = site
   \<and> fs (snd (script plain [] (fresh site False port_free))) = site"
proof -
  have d: "fs (fresh site False port_free) [SERVE_DIR] = Some (Dir True)"
    by (simp add: site_def)
  from existing_directory_unchanged [of "fresh site False port_free" True plain "[]"] d
  show ?thesis
    by simp
qed

section \<open>Requests\<close>






section \<open>Protocol, port and directory\<close>




end
